theory Spec2Isabelle
  imports Main
begin

section \<open>Python values shared by the modules\<close>

text \<open>
  Python strings are modelled as \<open>string\<close>. The source compares and strips ASCII
  characters only (\<open>/\<close>, \<open>http\<close>, \<open>_\<close>), so reading a \<open>char\<close> as one byte of
  the UTF-8 form of the text gives the same results as Python's code points.
\<close>

definition startswith :: "string \<Rightarrow> string \<Rightarrow> bool" where
  "startswith s p = (take (length p) s = p)"

definition endswith :: "string \<Rightarrow> string \<Rightarrow> bool" where
  "endswith s p = (length p \<le> length s \<and> drop (length s - length p) s = p)"

definition lstrip :: "string \<Rightarrow> string \<Rightarrow> string" where
  "lstrip s chars = dropWhile (\<lambda>c. c \<in> set chars) s"

definition rstrip :: "string \<Rightarrow> string \<Rightarrow> string" where
  "rstrip s chars = rev (dropWhile (\<lambda>c. c \<in> set chars) (rev s))"

text \<open>\<open>x or d\<close> on an optional string and on an optional integer: \<open>None\<close>, the empty
  string and \<open>0\<close> are falsy.\<close>

definition or_str :: "string option \<Rightarrow> string \<Rightarrow> string" where
  "or_str x d = (case x of None \<Rightarrow> d | Some s \<Rightarrow> if s = [] then d else s)"

definition or_int :: "int option \<Rightarrow> int \<Rightarrow> int" where
  "or_int x d = (case x of None \<Rightarrow> d | Some i \<Rightarrow> if i = 0 then d else i)"

definition digit_char :: "nat \<Rightarrow> char" where
  "digit_char d = ''0123456789'' ! (d mod 10)"

fun str_nat :: "nat \<Rightarrow> string" where
  "str_nat n = (if n < 10 then [digit_char n] else str_nat (n div 10) @ [digit_char (n mod 10)])"

declare str_nat.simps [simp del]


text \<open>
  An exception is its place in the class hierarchy, as far as the \<open>except\<close> clauses of
  the source tell classes apart, and the text \<open>str(e)\<close> the log lines print.
\<close>

datatype exc_kind =
    RequestException
  | OtherException
  | NonException

datatype py_exc = PyExc exc_kind string

fun exc_str :: "py_exc \<Rightarrow> string" where
  "exc_str (PyExc k msg) = msg"

fun isinstance_Exception :: "py_exc \<Rightarrow> bool" where
  "isinstance_Exception (PyExc k msg) = (k \<noteq> NonException)"


datatype level = NOTSET | DEBUG | INFO | WARNING | ERROR | CRITICAL

type_synonym log_record = "level \<times> string"

section \<open>tests/api/clients/api\_client.py\<close>

text \<open>
  \<open>session.headers\<close> is the HTTP library's case-insensitive dictionary: an ordered
  store from the lower-cased header name to the name as last written and the value.
  \<open>store_set\<close> is the ordered dictionary's item assignment: an existing key keeps its
  place, a new key goes to the end. \<open>str_lower\<close> lowers the ASCII letters, which is
  \<open>str.lower\<close> on every header name HTTP allows.
\<close>

definition lower_char :: "char \<Rightarrow> char" where
  "lower_char c =
     (case map_of (zip ''ABCDEFGHIJKLMNOPQRSTUVWXYZ'' ''abcdefghijklmnopqrstuvwxyz'') c of
        None \<Rightarrow> c
      | Some l \<Rightarrow> l)"

definition str_lower :: "string \<Rightarrow> string" where
  "str_lower s = map lower_char s"

primrec store_set :: "'k \<Rightarrow> 'v \<Rightarrow> ('k \<times> 'v) list \<Rightarrow> ('k \<times> 'v) list" where
  "store_set k v [] = [(k, v)]"
| "store_set k v (p # ps) = (if fst p = k then (k, v) # ps else p # store_set k v ps)"

type_synonym header_dict = "(string \<times> string \<times> string) list"

definition ci_setitem :: "header_dict \<Rightarrow> string \<Rightarrow> string \<Rightarrow> header_dict" where
  "ci_setitem d key val = store_set (str_lower key) (key, val) d"

definition ci_get :: "header_dict \<Rightarrow> string \<Rightarrow> string option" where
  "ci_get d key = map_option snd (map_of d (str_lower key))"

fun ci_update :: "header_dict \<Rightarrow> (string \<times> string) list \<Rightarrow> header_dict" where
  "ci_update d [] = d"
| "ci_update d ((k, v) # kvs) = ci_update (ci_setitem d k v) kvs"

text \<open>
  The retry policy handed to the adapter (\<open>retry_total\<close> is its \<open>total\<close>), the adapter
  with the hosts it holds pooled connections to, the session, and the client.
  \<open>poolmanager\<close> is filled by the transport while requests run; the client's own code
  only ever empties it. The session lists its adapters by prefix: the one adapter the
  constructor mounts under both schemes is listed under each.
\<close>

record retry =
  retry_total :: nat
  backoff_factor :: nat
  status_forcelist :: "nat list"

record http_adapter =
  max_retries :: retry
  poolmanager :: "string list"

record session =
  headers :: header_dict
  adapters :: "(string \<times> http_adapter) list"

record api_client =
  base_url :: string
  timeout :: int
  session :: session

text \<open>
  \<open>config.settings\<close> is not among the sources: the two settings the constructor reads
  are parameters. So are the headers and adapters a fresh library session starts with.
\<close>

record config =
  API_BASE_URL :: string
  API_TIMEOUT :: int

text \<open>\<open>mount\<close> registers the adapter under the prefix, then moves every shorter prefix
  behind it, as the library does to keep longer prefixes first.\<close>

definition mount :: "session \<Rightarrow> string \<Rightarrow> http_adapter \<Rightarrow> session" where
  "mount s prefix adapter =
     (let registered = store_set prefix adapter (adapters s);
          keys_to_move = filter (\<lambda>p. length (fst p) < length prefix) registered
      in s\<lparr>adapters := filter (\<lambda>p. \<not> length (fst p) < length prefix) registered @ keys_to_move\<rparr>)"

definition APIClient_init ::
  "config \<Rightarrow> session \<Rightarrow> string option \<Rightarrow> int option \<Rightarrow> (string \<times> string) list option
     \<Rightarrow> api_client \<times> log_record list" where
  "APIClient_init cfg fresh_session base_url_arg timeout_arg headers_arg =
     (let b = or_str base_url_arg (API_BASE_URL cfg);
          t = or_int timeout_arg (API_TIMEOUT cfg);
          s0 = fresh_session;
          s1 = s0\<lparr>headers := ci_update (headers s0)
                  [(''User-Agent'', ''Playwright-Demo/1.0''), (''Accept'', ''application/json'')]\<rparr>;
          s2 = (case headers_arg of
                  None \<Rightarrow> s1
                | Some hs \<Rightarrow> if hs = [] then s1 else s1\<lparr>headers := ci_update (headers s1) hs\<rparr>);
          retry_strategy = \<lparr>retry_total = 3, backoff_factor = 1,
                            status_forcelist = [429, 500, 502, 503, 504]\<rparr>;
          adapter = \<lparr>max_retries = retry_strategy, poolmanager = []\<rparr>;
          s3 = mount s2 ''http://'' adapter;
          s4 = mount s3 ''https://'' adapter
      in (\<lparr>base_url = b, timeout = t, session = s4\<rparr>,
          [(INFO, ''Initialized API client with base URL: '' @ b)]))"

definition build_url :: "api_client \<Rightarrow> string \<Rightarrow> string" where
  "build_url self endpoint =
     (if startswith endpoint ''http'' then endpoint
      else base_url self @ ''/'' @ lstrip endpoint ''/'')"























text \<open>The methods that change the client return it updated, with the lines they log.
  \<open>set_auth_header_default\<close> is \<open>set_auth_header\<close> called without a \<open>header_type\<close>,
  which then is \<open>Bearer\<close>.\<close>

definition set_auth_header :: "api_client \<Rightarrow> string \<Rightarrow> string \<Rightarrow> api_client \<times> log_record list" where
  "set_auth_header self token header_type =
     (self\<lparr>session := (session self)
        \<lparr>headers := ci_setitem (headers (session self)) ''Authorization''
                      (header_type @ '' '' @ token)\<rparr>\<rparr>,
      [(DEBUG, ''Authorization header set with type: '' @ header_type)])"


definition set_header :: "api_client \<Rightarrow> string \<Rightarrow> string \<Rightarrow> api_client \<times> log_record list" where
  "set_header self key val =
     (self\<lparr>session := (session self)\<lparr>headers := ci_setitem (headers (session self)) key val\<rparr>\<rparr>,
      [(DEBUG, ''Header set: '' @ key @ '' = '' @ val)])"

text \<open>Closing a session closes each mounted adapter, which drops its pooled
  connections; the session and its settings stay.\<close>

definition adapter_close :: "http_adapter \<Rightarrow> http_adapter" where
  "adapter_close a = a\<lparr>poolmanager := []\<rparr>"

definition session_close :: "session \<Rightarrow> session" where
  "session_close s = s\<lparr>adapters := map (\<lambda>(prefix, a). (prefix, adapter_close a)) (adapters s)\<rparr>"

definition close :: "api_client \<Rightarrow> api_client \<times> log_record list" where
  "close self =
     (self\<lparr>session := session_close (session self)\<rparr>, [(INFO, ''Closing API client session'')])"

definition open_connections :: "api_client \<Rightarrow> string list" where
  "open_connections self = concat (map (\<lambda>(prefix, a). poolmanager a) (adapters (session self)))"

text \<open>
  \<open>__enter__\<close> returns the client. \<open>__exit__\<close> closes it and returns \<open>None\<close>, which
  is falsy: the third component, "suppress the exception", is \<open>False\<close>.
  \<open>with_statement\<close> is Python's \<open>with mgr as value: block\<close>: the block may change
  the client and either completes with a value (a \<open>return\<close> inside it included) or
  raises; \<open>__exit__\<close> is called with the exception, or with none, and the exception is
  raised again unless \<open>__exit__\<close> returned a true value.
\<close>

definition APIClient_enter :: "api_client \<Rightarrow> api_client" where
  "APIClient_enter self = self"

definition APIClient_exit :: "api_client \<Rightarrow> py_exc option \<Rightarrow> api_client \<times> log_record list \<times> bool" where
  "APIClient_exit self exc_val = (let (self', lg) = close self in (self', lg, False))"

definition with_statement ::
  "api_client \<Rightarrow> (api_client \<Rightarrow> api_client \<times> log_record list \<times> (py_exc + 'r))
     \<Rightarrow> api_client \<times> log_record list \<times> (py_exc + 'r option)" where
  "with_statement mgr block =
     (let val = APIClient_enter mgr;
          (mgr1, lg1, r) = block val
      in case r of
           Inr v \<Rightarrow>
             (let (mgr2, lg2, suppress) = APIClient_exit mgr1 None
              in (mgr2, lg1 @ lg2, Inr (Some v)))
         | Inl e \<Rightarrow>
             (let (mgr2, lg2, suppress) = APIClient_exit mgr1 (Some e)
              in (mgr2, lg1 @ lg2, if suppress then Inr None else Inl e)))"

section \<open>tests/ui/pages/base\_page.py\<close>

text \<open>
  The page handle belongs to the browser engine; the module imports the synchronous
  API, so an engine call returns or raises before the method goes on. For the two checks
  modelled here a state of the handle is what the engine answers for each selector: a
  boolean, or an exception (an invalid selector, a closed page, a lost connection).
\<close>

record page_handle =
  engine_is_visible :: "string \<Rightarrow> py_exc + bool"
  engine_is_enabled :: "string \<Rightarrow> py_exc + bool"

record base_page =
  page :: page_handle
  page_base_url :: string

definition is_visible :: "base_page \<Rightarrow> string \<Rightarrow> log_record list \<times> (py_exc + bool)" where
  "is_visible self selector =
     (case engine_is_visible (page self) selector of
        Inr b \<Rightarrow> ([], Inr b)
      | Inl e \<Rightarrow>
          if isinstance_Exception e
          then ([(WARNING, ''Error checking visibility of '' @ selector @ '': '' @ exc_str e)],
                Inr False)
          else ([], Inl e))"

definition is_enabled :: "base_page \<Rightarrow> string \<Rightarrow> log_record list \<times> (py_exc + bool)" where
  "is_enabled self selector =
     (case engine_is_enabled (page self) selector of
        Inr b \<Rightarrow> ([], Inr b)
      | Inl e \<Rightarrow>
          if isinstance_Exception e
          then ([(WARNING, ''Error checking if '' @ selector @ '' is enabled: '' @ exc_str e)],
                Inr False)
          else ([], Inl e))"

section \<open>utils/helpers.py\<close>

text \<open>
  The clock is an input: \<open>now\<close> is what \<open>datetime.now()\<close> returns at the call.
  \<open>strftime\<close> covers the directives the sources use, each a zero-padded decimal of
  fixed width; \<open>zero_padded w n\<close> is the last \<open>w\<close> digits of \<open>n\<close>, which is all of
  \<open>n\<close> for the values a datetime holds. \<open>valid_datetime\<close> is the range of a clock
  reading; years before 1000, which no clock reads and which some platforms print
  without leading zeros, are left out.
\<close>

record datetime =
  year :: nat
  month :: nat
  day :: nat
  hour :: nat
  minute :: nat
  second :: nat
  microsecond :: nat

definition valid_datetime :: "datetime \<Rightarrow> bool" where
  "valid_datetime t =
     (1000 \<le> year t \<and> year t \<le> 9999 \<and> 1 \<le> month t \<and> month t \<le> 12 \<and> 1 \<le> day t \<and> day t \<le> 31
      \<and> hour t < 24 \<and> minute t < 60 \<and> second t < 60 \<and> microsecond t < 1000000)"

primrec zero_padded :: "nat \<Rightarrow> nat \<Rightarrow> string" where
  "zero_padded 0 n = []"
| "zero_padded (Suc w) n = zero_padded w (n div 10) @ [digit_char (n mod 10)]"

definition zfill :: "string \<Rightarrow> nat \<Rightarrow> string" where
  "zfill s w = replicate (w - length s) (CHR ''0'') @ s"

definition directive :: "datetime \<Rightarrow> char \<Rightarrow> string" where
  "directive t d =
     (if d = CHR ''Y'' then zero_padded 4 (year t)
      else if d = CHR ''m'' then zero_padded 2 (month t)
      else if d = CHR ''d'' then zero_padded 2 (day t)
      else if d = CHR ''H'' then zero_padded 2 (hour t)
      else if d = CHR ''M'' then zero_padded 2 (minute t)
      else if d = CHR ''S'' then zero_padded 2 (second t)
      else if d = CHR ''%'' then ''%''
      else [CHR ''%'', d])"

fun strftime :: "datetime \<Rightarrow> string \<Rightarrow> string" where
  "strftime t [] = []"
| "strftime t [c] = [c]"
| "strftime t (c # d # fmt) =
     (if c = CHR ''%'' then directive t d @ strftime t fmt else c # strftime t (d # fmt))"

definition get_timestamp :: "datetime \<Rightarrow> string" where
  "get_timestamp now = strftime now ''%Y%m%d_%H%M%S''"

definition generate_unique_filename :: "datetime \<Rightarrow> string \<Rightarrow> string \<Rightarrow> string" where
  "generate_unique_filename now prefix extension =
     (let timestamp = get_timestamp now in
      if prefix \<noteq> [] then prefix @ ''_'' @ timestamp @ extension else timestamp @ extension)"

text \<open>The shape \<open>YYYYMMDD_HHMMSS\<close>: eight digits, an underscore, six digits; and two
  clock readings within the same second.\<close>

definition is_digit :: "char \<Rightarrow> bool" where
  "is_digit c = (c \<in> set ''0123456789'')"

definition timestamp_shaped :: "string \<Rightarrow> bool" where
  "timestamp_shaped s =
     (length s = 15 \<and> list_all is_digit (take 8 s) \<and> s ! 8 = CHR ''_''
      \<and> list_all is_digit (drop 9 s))"

definition same_second :: "datetime \<Rightarrow> datetime \<Rightarrow> bool" where
  "same_second t t' =
     (year t = year t' \<and> month t = month t' \<and> day t = day t' \<and> hour t = hour t'
      \<and> minute t = minute t' \<and> second t = second t')"

section \<open>utils/logger.py\<close>

text \<open>
  The state is the logging module's table of named loggers and the class attribute
  \<open>Logger._logger\<close>. A logger object is referred to by the name it is registered
  under: \<open>getLogger\<close> returns the logger of that name, creating it on first use.
\<close>

record handler =
  handler_level :: level
  handler_fmt :: string
  handler_datefmt :: string

record py_logger =
  logger_level :: level
  logger_handlers :: "handler list"

record logging_state =
  loggerDict :: "string \<rightharpoonup> py_logger"
  Logger_logger :: "string option"

definition getLogger :: "logging_state \<Rightarrow> string \<Rightarrow> logging_state \<times> string" where
  "getLogger st name =
     (case loggerDict st name of
        Some l \<Rightarrow> (st, name)
      | None \<Rightarrow>
          (st\<lparr>loggerDict := (loggerDict st)(name \<mapsto> \<lparr>logger_level = NOTSET, logger_handlers = []\<rparr>)\<rparr>,
           name))"

definition handlers_of :: "logging_state \<Rightarrow> string \<Rightarrow> handler list" where
  "handlers_of st ref = (case loggerDict st ref of None \<Rightarrow> [] | Some l \<Rightarrow> logger_handlers l)"

definition update_logger :: "logging_state \<Rightarrow> string \<Rightarrow> (py_logger \<Rightarrow> py_logger) \<Rightarrow> logging_state" where
  "update_logger st ref f =
     (case loggerDict st ref of
        None \<Rightarrow> st
      | Some l \<Rightarrow> st\<lparr>loggerDict := (loggerDict st)(ref \<mapsto> f l)\<rparr>)"

definition console_handler :: handler where
  "console_handler =
     \<lparr>handler_level = DEBUG,
      handler_fmt = ''%(asctime)s - %(name)s - %(levelname)s - %(message)s'',
      handler_datefmt = ''%Y-%m-%d %H:%M:%S''\<rparr>"

definition setup_logger :: "logging_state \<Rightarrow> string \<Rightarrow> logging_state" where
  "setup_logger st name =
     (let (st1, ref) = getLogger st name;
          st2 = st1\<lparr>Logger_logger := Some ref\<rparr>;
          st3 = update_logger st2 ref (\<lambda>l. l\<lparr>logger_level := DEBUG\<rparr>);
          ch = console_handler
      in if handlers_of st3 ref = []
         then update_logger st3 ref (\<lambda>l. l\<lparr>logger_handlers := logger_handlers l @ [ch]\<rparr>)
         else st3)"

definition get_logger :: "logging_state \<Rightarrow> string option \<Rightarrow> logging_state \<times> string option" where
  "get_logger st name =
     (let st' = (if Logger_logger st = None
                 then setup_logger st (or_str name ''playwright-demo'') else st)
      in (st', Logger_logger st'))"

text \<open>A caller that asks for the logger once per element of \<open>names\<close>, in order, and
  keeps what each call returned.\<close>

fun get_logger_calls :: "logging_state \<Rightarrow> string option list \<Rightarrow> logging_state \<times> string option list" where
  "get_logger_calls st [] = (st, [])"
| "get_logger_calls st (n # ns) =
     (let (st1, r) = get_logger st n;
          (st2, rs) = get_logger_calls st1 ns
      in (st2, r # rs))"

section \<open>The specification's wording, and example values\<close>

text \<open>
  The specification's wording of the same resolution, for comparison with \<open>build_url\<close>:
  an endpoint "starts with a URL scheme" when it begins with a letter, then letters,
  digits, \<open>+\<close>, \<open>-\<close> or \<open>.\<close>, then a colon; and the two parts are joined with
  exactly one slash whatever slashes end the first and begin the second.
\<close>

definition is_alpha :: "char \<Rightarrow> bool" where
  "is_alpha c = (c \<in> set ''abcdefghijklmnopqrstuvwxyzABCDEFGHIJKLMNOPQRSTUVWXYZ'')"

definition is_scheme_char :: "char \<Rightarrow> bool" where
  "is_scheme_char c = (is_alpha c \<or> c \<in> set ''0123456789+-.'')"

definition spec_starts_with_url_scheme :: "string \<Rightarrow> bool" where
  "spec_starts_with_url_scheme s =
     (case s of
        [] \<Rightarrow> False
      | c # cs \<Rightarrow> is_alpha c \<and> startswith (dropWhile is_scheme_char cs) '':'')"

definition spec_join_one_slash :: "string \<Rightarrow> string \<Rightarrow> string" where
  "spec_join_one_slash b e = rstrip b ''/'' @ ''/'' @ lstrip e ''/''"

text \<open>
  Example values: the session the library hands out (its default headers, an adapter
  without retries under each scheme), a configuration, the client the constructor builds
  from them for \<open>https://api.example.test\<close>, that client with two pooled connections,
  a clock reading, the logging state of a process that has not logged yet, a page
  showing one heading, and a page that has been closed.
\<close>

definition library_session :: session where
  "library_session =
     \<lparr>headers =
        [(''user-agent'', ''User-Agent'', ''python-requests/2.32''),
         (''accept-encoding'', ''Accept-Encoding'', ''gzip, deflate''),
         (''accept'', ''Accept'', ''*/*''),
         (''connection'', ''Connection'', ''keep-alive'')],
      adapters =
        [(''https://'', \<lparr>max_retries = \<lparr>retry_total = 0, backoff_factor = 0, status_forcelist = []\<rparr>,
                         poolmanager = []\<rparr>),
         (''http://'', \<lparr>max_retries = \<lparr>retry_total = 0, backoff_factor = 0, status_forcelist = []\<rparr>,
                        poolmanager = []\<rparr>)]\<rparr>"

definition example_config :: config where
  "example_config = \<lparr>API_BASE_URL = ''https://jsonplaceholder.typicode.com'', API_TIMEOUT = 30\<rparr>"

definition example_client :: api_client where
  "example_client =
     fst (APIClient_init example_config library_session (Some ''https://api.example.test'') None None)"

definition busy_client :: api_client where
  "busy_client =
     example_client\<lparr>session := (session example_client)
       \<lparr>adapters := map (\<lambda>p. (fst p, (snd p)\<lparr>poolmanager := [''api.example.test:443'', ''cdn.example.test:443'']\<rparr>))
                      (adapters (session example_client))\<rparr>\<rparr>"

definition example_now :: datetime where
  "example_now =
     \<lparr>year = 2026, month = 11, day = 4, hour = 9, minute = 5, second = 56, microsecond = 17\<rparr>"

definition process_start :: logging_state where
  "process_start = \<lparr>loggerDict = Map.empty, Logger_logger = None\<rparr>"

definition loaded_page :: base_page where
  "loaded_page =
     \<lparr>page =
        \<lparr>engine_is_visible = (\<lambda>selector. Inr (selector = ''h1'')),
         engine_is_enabled = (\<lambda>selector. Inr (selector = ''h1''))\<rparr>,
      page_base_url = ''https://httpbin.org/html''\<rparr>"

definition closed_page :: base_page where
  "closed_page =
     \<lparr>page =
        \<lparr>engine_is_visible =
           (\<lambda>selector. Inl (PyExc OtherException ''Target page, context or browser has been closed'')),
         engine_is_enabled =
           (\<lambda>selector. Inl (PyExc OtherException ''Target page, context or browser has been closed''))\<rparr>,
      page_base_url = ''https://httpbin.org/html''\<rparr>"

section \<open>Facts about strings\<close>

lemma lstrip_no_leading: "c \<in> set chars \<Longrightarrow> \<not> startswith (lstrip e chars) [c]"
proof (cases "dropWhile (\<lambda>c. c \<in> set chars) e")
  case Nil
  then have "lstrip e chars = []" by (simp add: lstrip_def)
  then show ?thesis by (simp add: startswith_def)
next
  case (Cons x xs)
  assume c: "c \<in> set chars"
  from Cons have "x \<notin> set chars"
    using hd_dropWhile [of "\<lambda>c. c \<in> set chars" e] by simp
  with c Cons show ?thesis by (auto simp: startswith_def lstrip_def)
qed

lemma lstrip_decomp: "e = takeWhile (\<lambda>c. c \<in> set chars) e @ lstrip e chars"
  by (simp add: lstrip_def)

lemma rstrip_id: "\<not> endswith b ''/'' \<Longrightarrow> rstrip b ''/'' = b"
proof (cases b rule: rev_cases)
  case Nil
  then show ?thesis by (simp add: rstrip_def)
next
  case (snoc ys y)
  assume "\<not> endswith b ''/''"
  with snoc have "y \<noteq> CHR ''/''" by (simp add: endswith_def)
  with snoc show ?thesis by (simp add: rstrip_def)
qed

lemma rstrip_shorter: "endswith b ''/'' \<Longrightarrow> length (rstrip b ''/'') < length b"
proof (cases b rule: rev_cases)
  case Nil
  assume "endswith b ''/''"
  with Nil show ?thesis by (simp add: endswith_def)
next
  case (snoc ys y)
  assume "endswith b ''/''"
  with snoc have "y = CHR ''/''" by (simp add: endswith_def)
  with snoc have "rstrip b ''/'' = rev (dropWhile (\<lambda>c. c \<in> set ''/'') (rev ys))"
    by (simp add: rstrip_def)
  moreover have "length (dropWhile (\<lambda>c. c \<in> set ''/'') (rev ys)) \<le> length (rev ys)"
    by (rule length_dropWhile_le)
  ultimately show ?thesis using snoc by simp
qed


section \<open>The constructed client\<close>

lemma example_client_eq:
  "example_client =
     \<lparr>base_url = ''https://api.example.test'', timeout = 30,
      session =
        \<lparr>headers =
           [(''user-agent'', ''User-Agent'', ''Playwright-Demo/1.0''),
            (''accept-encoding'', ''Accept-Encoding'', ''gzip, deflate''),
            (''accept'', ''Accept'', ''application/json''),
            (''connection'', ''Connection'', ''keep-alive'')],
         adapters =
           [(''https://'', \<lparr>max_retries = \<lparr>retry_total = 3, backoff_factor = 1,
                                           status_forcelist = [429, 500, 502, 503, 504]\<rparr>,
                            poolmanager = []\<rparr>),
            (''http://'', \<lparr>max_retries = \<lparr>retry_total = 3, backoff_factor = 1,
                                          status_forcelist = [429, 500, 502, 503, 504]\<rparr>,
                           poolmanager = []\<rparr>)]\<rparr>\<rparr>"
  by (simp add: example_client_def APIClient_init_def example_config_def library_session_def
      or_str_def or_int_def mount_def ci_setitem_def str_lower_def lower_char_def Let_def)

lemma map_of_filter_key:
  "map_of (filter (\<lambda>p. Q (fst p)) xs) k = (if Q k then map_of xs k else None)"
  by (induction xs) auto

lemma map_of_store_set: "map_of (store_set k v d) = (map_of d)(k \<mapsto> v)"
  by (induction d) (auto simp: fun_eq_iff)

lemma keys_store_set:
  "map fst (store_set k v d) = (if k \<in> fst ` set d then map fst d else map fst d @ [k])"
  by (induction d) auto


lemma distinct_store_set:
  "distinct (map fst d) \<Longrightarrow> distinct (map fst (store_set k v d))"
  by (simp add: keys_store_set)

lemma filter_store_set:
  "filter (\<lambda>p. fst p \<noteq> k) (store_set k v d) = filter (\<lambda>p. fst p \<noteq> k) d"
  by (induction d) auto





lemma ci_get_setitem_other:
  "str_lower k' \<noteq> str_lower key \<Longrightarrow> ci_get (ci_setitem d key val) k' = ci_get d k'"
  by (simp add: ci_get_def ci_setitem_def map_of_store_set)

text \<open>One entry per header name: the constructor and both setters keep it so.\<close>

lemma distinct_ci_setitem:
  "distinct (map fst d) \<Longrightarrow> distinct (map fst (ci_setitem d key val))"
  by (simp add: ci_setitem_def distinct_store_set)

lemma distinct_ci_update:
  "distinct (map fst d) \<Longrightarrow> distinct (map fst (ci_update d kvs))"
  by (induction d kvs rule: ci_update.induct) (simp_all add: distinct_ci_setitem)

lemma headers_mount: "headers (mount s prefix a) = headers s"
  by (simp add: mount_def Let_def)

lemma distinct_headers_init:
  "distinct (map fst (headers s)) \<Longrightarrow>
     distinct (map fst (headers (session (fst (APIClient_init cfg s b t h)))))"
  by (simp add: APIClient_init_def Let_def headers_mount distinct_ci_update distinct_ci_setitem
      split: option.splits)

lemma distinct_headers_setters:
  "distinct (map fst (headers (session self))) \<Longrightarrow>
     distinct (map fst (headers (session (fst (set_header self key val)))))
     \<and> distinct (map fst (headers (session (fst (set_auth_header self token header_type)))))"
  by (simp add: set_header_def set_auth_header_def distinct_ci_setitem)

lemma map_of_mount:
  "map_of (adapters (mount s prefix a)) k = (if k = prefix then Some a else map_of (adapters s) k)"
proof -
  let ?r = "store_set prefix a (adapters s)"
  have "map_of (filter (\<lambda>p. \<not> length (fst p) < length prefix) ?r
                @ filter (\<lambda>p. length (fst p) < length prefix) ?r) k
        = map_of ?r k"
    using map_of_filter_key [of "\<lambda>x. \<not> length x < length prefix" ?r k]
      map_of_filter_key [of "\<lambda>x. length x < length prefix" ?r k]
    by (simp add: map_add_def split: option.splits)
  then show ?thesis by (simp add: mount_def Let_def map_of_store_set)
qed

text \<open>Whatever session the library hands out and whatever the arguments, the constructor
  leaves the adapter with the retry settings \<open>total = 3\<close>, \<open>backoff_factor = 1\<close>,
  \<open>status_forcelist = [429, 500, 502, 503, 504]\<close> under both schemes.\<close>

lemma retry_strategy_configured:
  "map_of (adapters (session (fst (APIClient_init cfg s b t h)))) ''https://''
     = Some \<lparr>max_retries = \<lparr>retry_total = 3, backoff_factor = 1,
                              status_forcelist = [429, 500, 502, 503, 504]\<rparr>,
             poolmanager = []\<rparr>
   \<and> map_of (adapters (session (fst (APIClient_init cfg s b t h)))) ''http://''
     = Some \<lparr>max_retries = \<lparr>retry_total = 3, backoff_factor = 1,
                              status_forcelist = [429, 500, 502, 503, 504]\<rparr>,
             poolmanager = []\<rparr>"
  by (simp add: APIClient_init_def Let_def map_of_mount)










lemma session_close_idem: "session_close (session_close s) = session_close s"
  by (simp add: session_close_def adapter_close_def case_prod_beta comp_def)

lemma open_connections_close: "open_connections (fst (close self)) = []"
  by (simp add: open_connections_def close_def session_close_def adapter_close_def
      case_prod_beta comp_def)

lemma fst_with_statement: "fst (with_statement self block) = fst (close (fst (block self)))"
  by (simp add: with_statement_def APIClient_enter_def APIClient_exit_def Let_def
      case_prod_beta split: sum.splits)

section \<open>Facts about timestamps\<close>

lemma digit_char_mod: "digit_char (n mod 10) = digit_char n"
  by (simp add: digit_char_def)

lemma is_digit_digit_char: "is_digit (digit_char d)"
  unfolding is_digit_def digit_char_def by (rule nth_mem) simp

lemma str_nat_small: "n < 10 \<Longrightarrow> str_nat n = [digit_char n]"
  by (simp add: str_nat.simps)

lemma str_nat_large: "\<not> n < 10 \<Longrightarrow> str_nat n = str_nat (n div 10) @ [digit_char (n mod 10)]"
  by (subst str_nat.simps) simp

lemma length_zero_padded: "length (zero_padded w n) = w"
  by (induction w arbitrary: n) simp_all

lemma digits_zero_padded: "list_all is_digit (zero_padded w n)"
  by (induction w arbitrary: n) (simp_all add: is_digit_digit_char)

lemma zero_padded_2: "zero_padded 2 n = [digit_char (n div 10 mod 10), digit_char (n mod 10)]"
proof -
  have "zero_padded (Suc (Suc 0)) n = [digit_char (n div 10 mod 10), digit_char (n mod 10)]"
    by simp
  moreover have "(2::nat) = Suc (Suc 0)" by simp
  ultimately show ?thesis by (simp only:)
qed

lemma zero_padded_4:
  "zero_padded 4 n = [digit_char (n div 1000 mod 10), digit_char (n div 100 mod 10),
                      digit_char (n div 10 mod 10), digit_char (n mod 10)]"
proof -
  have "zero_padded (Suc (Suc (Suc (Suc 0)))) n =
          [digit_char (n div 10 div 10 div 10 mod 10), digit_char (n div 10 div 10 mod 10),
           digit_char (n div 10 mod 10), digit_char (n mod 10)]"
    by simp
  moreover have "(4::nat) = Suc (Suc (Suc (Suc 0)))" by simp
  moreover have "n div 10 div 10 = n div 100" "n div 10 div 10 div 10 = n div 1000"
    by (simp_all add: div_mult2_eq [symmetric])
  ultimately show ?thesis by (simp only:)
qed

text \<open>Within its width, \<open>zero_padded\<close> is the decimal numeral filled with zeros on the
  left, which is what the directives of \<open>strftime\<close> print.\<close>

lemma zero_padded_zfill:
  "0 < w \<Longrightarrow> n < 10 ^ w \<Longrightarrow> zero_padded w n = zfill (str_nat n) w"
proof (induction w arbitrary: n)
  case 0
  then show ?case by simp
next
  case (Suc w)
  show ?case
  proof (cases "w = 0")
    case True
    with Suc.prems show ?thesis
      by (simp add: zfill_def str_nat_small digit_char_mod)
  next
    case False
    from Suc.prems have "n div 10 < 10 ^ w" by (simp add: less_mult_imp_div_less mult.commute)
    with False Suc.IH have ih: "zero_padded w (n div 10) = zfill (str_nat (n div 10)) w" by simp
    show ?thesis
    proof (cases "n < 10")
      case True
      then have "n div 10 = 0" by simp
      moreover have "replicate (w - Suc 0) (CHR ''0'') @ [CHR ''0''] = replicate w (CHR ''0'')"
        using False by (cases w) (simp_all add: replicate_append_same)
      moreover have "digit_char 0 = CHR ''0''" by (simp add: digit_char_def)
      ultimately show ?thesis
        using ih True by (simp add: zfill_def str_nat_small digit_char_mod)
    next
      case large: False
      have "length (str_nat (n div 10)) \<le> w \<or> w < length (str_nat (n div 10))" by arith
      with ih large show ?thesis
        by (auto simp add: zfill_def str_nat_large Suc_diff_le)
    qed
  qed
qed

lemma get_timestamp_fields:
  "get_timestamp now =
     zero_padded 4 (year now) @ zero_padded 2 (month now) @ zero_padded 2 (day now) @ ''_''
     @ zero_padded 2 (hour now) @ zero_padded 2 (minute now) @ zero_padded 2 (second now)"
  by (simp add: get_timestamp_def directive_def)

lemma get_timestamp_decimal:
  assumes "valid_datetime now"
  shows "get_timestamp now =
     zfill (str_nat (year now)) 4 @ zfill (str_nat (month now)) 2 @ zfill (str_nat (day now)) 2
     @ ''_'' @ zfill (str_nat (hour now)) 2 @ zfill (str_nat (minute now)) 2
     @ zfill (str_nat (second now)) 2"
proof -
  from assms have "year now < 10 ^ 4" "month now < 10 ^ 2" "day now < 10 ^ 2"
    "hour now < 10 ^ 2" "minute now < 10 ^ 2" "second now < 10 ^ 2"
    by (simp_all add: valid_datetime_def)
  then show ?thesis
    by (simp only: get_timestamp_fields zero_padded_zfill zero_less_numeral)
qed

lemma timestamp_shaped_get_timestamp: "timestamp_shaped (get_timestamp now)"
  unfolding timestamp_shaped_def get_timestamp_fields
  by (simp add: length_zero_padded digits_zero_padded nth_append)

lemma same_second_timestamp: "same_second t t' \<Longrightarrow> get_timestamp t' = get_timestamp t"
  by (simp add: get_timestamp_fields same_second_def)

section \<open>Facts about the logger state\<close>

lemma Logger_logger_setup: "Logger_logger (setup_logger st name) = Some name"
  by (simp add: setup_logger_def getLogger_def update_logger_def Let_def split: option.splits)

lemma handlers_of_setup:
  "handlers_of (setup_logger st name) ref =
     (if ref = name \<and> handlers_of st name = [] then [console_handler] else handlers_of st ref)"
  by (simp add: setup_logger_def getLogger_def update_logger_def handlers_of_def Let_def
      split: option.splits)

lemma level_setup:
  "map_option logger_level (loggerDict (setup_logger st name) name) = Some DEBUG"
  by (simp add: setup_logger_def getLogger_def update_logger_def handlers_of_def Let_def
      split: option.splits)

lemma get_logger_initialised:
  "Logger_logger st \<noteq> None \<Longrightarrow> get_logger st name = (st, Logger_logger st)"
  by (cases "Logger_logger st") (simp_all add: get_logger_def)

lemma get_logger_first:
  "Logger_logger st = None \<Longrightarrow>
     get_logger st name = (setup_logger st (or_str name ''playwright-demo''),
                           Some (or_str name ''playwright-demo''))"
  by (simp add: get_logger_def Logger_logger_setup)

lemma get_logger_returns_attribute:
  "snd (get_logger st name) = Logger_logger (fst (get_logger st name))"
  by (simp add: get_logger_def Let_def)

lemma get_logger_not_None: "Logger_logger (fst (get_logger st name)) \<noteq> None"
  by (simp add: get_logger_def Let_def Logger_logger_setup)

lemma get_logger_calls_initialised:
  "Logger_logger st \<noteq> None \<Longrightarrow>
     get_logger_calls st names = (st, replicate (length names) (Logger_logger st))"
  by (induction names) (simp_all add: get_logger_initialised)

lemma handlers_of_get_logger:
  "handlers_of (fst (get_logger st name)) ref = handlers_of st ref
   \<or> handlers_of (fst (get_logger st name)) ref = handlers_of st ref @ [console_handler]"
  by (cases "Logger_logger st = None")
    (auto simp: get_logger_first get_logger_initialised handlers_of_setup)

lemma get_logger_calls_Cons:
  "get_logger_calls st (n # ns) =
     (fst (get_logger st n),
      snd (get_logger st n) # replicate (length ns) (snd (get_logger st n)))"
  using get_logger_calls_initialised [OF get_logger_not_None, of st n ns]
  by (simp add: case_prod_beta get_logger_returns_attribute)

section \<open>URL resolution\<close>

text \<open>
  C1, as the code has it. For every client and every endpoint that does not begin with
  the four characters \<open>http\<close>, \<open>_build_url\<close> returns the base URL as it stands, one
  slash, and the endpoint without its leading slashes: the endpoint is some slashes
  followed by a rest that begins with none, and only the rest is kept. When the base URL
  does not end in a slash this is the join with exactly one separating slash that the
  specification describes; when it ends in one, that slash stays and the result is not
  that join.
\<close>

theorem build_url_inserts_one_slash:
  assumes "\<not> startswith endpoint ''http''"
  shows "build_url self endpoint = base_url self @ ''/'' @ lstrip endpoint ''/''
       \<and> \<not> startswith (lstrip endpoint ''/'') ''/''
       \<and> (\<exists>n. endpoint = replicate n (CHR ''/'') @ lstrip endpoint ''/'')
       \<and> (\<not> endswith (base_url self) ''/'' \<longrightarrow>
            build_url self endpoint = spec_join_one_slash (base_url self) endpoint)
       \<and> (endswith (base_url self) ''/'' \<longrightarrow>
            build_url self endpoint \<noteq> spec_join_one_slash (base_url self) endpoint)"
proof -
  have 1: "build_url self endpoint = base_url self @ ''/'' @ lstrip endpoint ''/''"
    using assms by (simp add: build_url_def)
  have 2: "\<not> startswith (lstrip endpoint ''/'') ''/''"
    using lstrip_no_leading [where c = "CHR ''/''" and chars = "''/''" and e = endpoint] by simp
  have "takeWhile (\<lambda>c. c \<in> set ''/'') endpoint
          = replicate (length (takeWhile (\<lambda>c. c \<in> set ''/'') endpoint)) (CHR ''/'')"
    by (rule replicate_length_same [symmetric]) (auto dest: set_takeWhileD)
  then have 3: "\<exists>n. endpoint = replicate n (CHR ''/'') @ lstrip endpoint ''/''"
    using lstrip_decomp [of endpoint "''/''"] by metis
  have 4: "\<not> endswith (base_url self) ''/'' \<longrightarrow>
            build_url self endpoint = spec_join_one_slash (base_url self) endpoint"
    using 1 by (simp add: spec_join_one_slash_def rstrip_id)
  have 5: "build_url self endpoint \<noteq> spec_join_one_slash (base_url self) endpoint"
    if e: "endswith (base_url self) ''/''"
  proof -
    have "length (build_url self endpoint)
            = length (base_url self) + 1 + length (lstrip endpoint ''/'')"
      using 1 by simp
    moreover have "length (spec_join_one_slash (base_url self) endpoint)
            = length (rstrip (base_url self) ''/'') + 1 + length (lstrip endpoint ''/'')"
      by (simp add: spec_join_one_slash_def)
    ultimately show ?thesis using rstrip_shorter [OF e] by auto
  qed
  from 1 2 3 4 5 show ?thesis by blast
qed

text \<open>C1 at \<open>client.get("/items/1")\<close> on base URL \<open>https://api.example.test\<close>, and on
  that base URL with a slash at its end.\<close>

theorem build_url_inserts_one_slash_witness:
  "\<not> startswith ''/items/1'' ''http''
   \<and> \<not> endswith (base_url example_client) ''/''
   \<and> build_url example_client ''/items/1'' = ''https://api.example.test/items/1''
   \<and> build_url example_client ''/items/1''
       = spec_join_one_slash (base_url example_client) ''/items/1''
   \<and> endswith (base_url (example_client\<lparr>base_url := ''https://api.example.test/''\<rparr>)) ''/''
   \<and> build_url (example_client\<lparr>base_url := ''https://api.example.test/''\<rparr>) ''/items/1''
       = ''https://api.example.test//items/1''"
  using build_url_inserts_one_slash [of "''/items/1''" example_client]
    build_url_inserts_one_slash
      [of "''/items/1''" "example_client\<lparr>base_url := ''https://api.example.test/''\<rparr>"]
  by (simp add: startswith_def endswith_def example_client_eq lstrip_def build_url_def
      spec_join_one_slash_def rstrip_def)

text \<open>
  C1 as stated fails twice. A base URL that ends in a slash keeps it, so the URL has two
  slashes where the specification's join has one. And an endpoint such as
  \<open>httpbin/get\<close>, which starts with no URL scheme, is not joined to the base URL at all.
\<close>

theorem build_url_one_slash_counterexample:
  "\<not> spec_starts_with_url_scheme ''items/1''
   \<and> build_url (example_client\<lparr>base_url := ''https://api.example.test/''\<rparr>) ''items/1''
       = ''https://api.example.test//items/1''
   \<and> spec_join_one_slash ''https://api.example.test/'' ''items/1''
       = ''https://api.example.test/items/1''
   \<and> \<not> spec_starts_with_url_scheme ''httpbin/get''
   \<and> build_url example_client ''httpbin/get'' = ''httpbin/get''
   \<and> spec_join_one_slash (base_url example_client) ''httpbin/get''
       = ''https://api.example.test/httpbin/get''"
  by (simp add: spec_starts_with_url_scheme_def is_alpha_def is_scheme_char_def startswith_def
      build_url_def example_client_eq lstrip_def spec_join_one_slash_def rstrip_def)




section \<open>Visibility checks\<close>

text \<open>
  C3. \<open>is_visible\<close> and \<open>is_enabled\<close> never raise on an error of the engine: for
  every selector and every page handle, when the engine call raises an exception \<open>e\<close>
  that is an \<open>Exception\<close> (every error is; only interpreter signals such as
  \<open>KeyboardInterrupt\<close> are not), the check logs one warning naming the selector and
  the error, and returns \<open>False\<close>; when the engine answers, the answer is returned and
  nothing is logged. So on a handle whose engine raises nothing but errors, each check
  returns a boolean.
\<close>

theorem visibility_checks_never_raise:
  "(engine_is_visible (page self) selector = Inl e \<and> isinstance_Exception e \<longrightarrow>
      is_visible self selector =
        ([(WARNING, ''Error checking visibility of '' @ selector @ '': '' @ exc_str e)],
         Inr False))
   \<and> (engine_is_enabled (page self) selector = Inl e \<and> isinstance_Exception e \<longrightarrow>
      is_enabled self selector =
        ([(WARNING, ''Error checking if '' @ selector @ '' is enabled: '' @ exc_str e)],
         Inr False))
   \<and> (engine_is_visible (page self) selector = Inr b \<longrightarrow> is_visible self selector = ([], Inr b))
   \<and> (engine_is_enabled (page self) selector = Inr b \<longrightarrow> is_enabled self selector = ([], Inr b))
   \<and> ((\<forall>m. engine_is_visible (page self) selector \<noteq> Inl (PyExc NonException m)) \<longrightarrow>
        (\<exists>r. snd (is_visible self selector) = Inr r))
   \<and> ((\<forall>m. engine_is_enabled (page self) selector \<noteq> Inl (PyExc NonException m)) \<longrightarrow>
        (\<exists>r. snd (is_enabled self selector) = Inr r))"
proof -
  have vis: "\<exists>r. snd (is_visible self selector) = Inr r"
    if "\<forall>m. engine_is_visible (page self) selector \<noteq> Inl (PyExc NonException m)"
  proof (cases "engine_is_visible (page self) selector")
    case (Inl x)
    with that have "isinstance_Exception x" by (cases x) auto
    with Inl have "snd (is_visible self selector) = Inr False" by (simp add: is_visible_def)
    then show ?thesis by blast
  next
    case (Inr y)
    then show ?thesis by (simp add: is_visible_def)
  qed
  have en: "\<exists>r. snd (is_enabled self selector) = Inr r"
    if "\<forall>m. engine_is_enabled (page self) selector \<noteq> Inl (PyExc NonException m)"
  proof (cases "engine_is_enabled (page self) selector")
    case (Inl x)
    with that have "isinstance_Exception x" by (cases x) auto
    with Inl have "snd (is_enabled self selector) = Inr False" by (simp add: is_enabled_def)
    then show ?thesis by blast
  next
    case (Inr y)
    then show ?thesis by (simp add: is_enabled_def)
  qed
  from vis en show ?thesis by (simp add: is_visible_def is_enabled_def)
qed

text \<open>C3 on a closed page with the malformed selector \<open>div[\<close>, and on a loaded
  page whose engine answers.\<close>

theorem visibility_checks_never_raise_witness:
  "engine_is_visible (page closed_page) ''div[''
     = Inl (PyExc OtherException ''Target page, context or browser has been closed'')
   \<and> engine_is_enabled (page closed_page) ''div[''
     = Inl (PyExc OtherException ''Target page, context or browser has been closed'')
   \<and> isinstance_Exception (PyExc OtherException ''Target page, context or browser has been closed'')
   \<and> (\<forall>m. engine_is_visible (page closed_page) ''div['' \<noteq> Inl (PyExc NonException m))
   \<and> (\<forall>m. engine_is_enabled (page closed_page) ''div['' \<noteq> Inl (PyExc NonException m))
   \<and> is_visible closed_page ''div['' =
       ([(WARNING, ''Error checking visibility of div[: Target page, context or browser has been closed'')],
        Inr False)
   \<and> is_enabled closed_page ''div['' =
       ([(WARNING, ''Error checking if div[ is enabled: Target page, context or browser has been closed'')],
        Inr False)
   \<and> engine_is_visible (page loaded_page) ''h1'' = Inr True
   \<and> engine_is_enabled (page loaded_page) ''h1'' = Inr True
   \<and> is_visible loaded_page ''h1'' = ([], Inr True)
   \<and> is_enabled loaded_page ''h1'' = ([], Inr True)"
  using visibility_checks_never_raise [of closed_page "''div[''"
      "PyExc OtherException ''Target page, context or browser has been closed''"]
    visibility_checks_never_raise [of loaded_page "''h1''" _ True]
  by (simp add: closed_page_def loaded_page_def)

section \<open>Headers\<close>




text \<open>
  C10. \<open>set_header(key, value)\<close> and \<open>set_auth_header(token, scheme)\<close> leave the
  client's base URL, its timeout and its adapters (the retry configuration with them)
  as they were, and in the header dictionary they touch the one entry of the named
  header only: every entry stored under another name is kept, in place, and looking up
  any other header gives what it gave before. Header names are compared without regard
  to case, as the dictionary does.
\<close>

theorem set_header_frame:
  "(let c1 = fst (set_header self key val) in
      base_url c1 = base_url self \<and> timeout c1 = timeout self
      \<and> adapters (session c1) = adapters (session self)
      \<and> filter (\<lambda>p. fst p \<noteq> str_lower key) (headers (session c1))
          = filter (\<lambda>p. fst p \<noteq> str_lower key) (headers (session self))
      \<and> (str_lower other \<noteq> str_lower key \<longrightarrow>
           ci_get (headers (session c1)) other = ci_get (headers (session self)) other))
   \<and> (let c2 = fst (set_auth_header self token header_type) in
      base_url c2 = base_url self \<and> timeout c2 = timeout self
      \<and> adapters (session c2) = adapters (session self)
      \<and> filter (\<lambda>p. fst p \<noteq> str_lower ''Authorization'') (headers (session c2))
          = filter (\<lambda>p. fst p \<noteq> str_lower ''Authorization'') (headers (session self))
      \<and> (str_lower other \<noteq> str_lower ''Authorization'' \<longrightarrow>
           ci_get (headers (session c2)) other = ci_get (headers (session self)) other))"
  by (simp add: Let_def set_header_def set_auth_header_def ci_get_setitem_other)
     (simp add: ci_setitem_def filter_store_set)

text \<open>C10 at \<open>set_header("accept", "text/html")\<close> and \<open>set_auth_header("abc")\<close> on the
  constructed client, read at the header \<open>User-Agent\<close>.\<close>

theorem set_header_frame_witness:
  "str_lower ''User-Agent'' \<noteq> str_lower ''accept''
   \<and> str_lower ''User-Agent'' \<noteq> str_lower ''Authorization''
   \<and> ci_get (headers (session (fst (set_header example_client ''accept'' ''text/html''))))
        ''User-Agent'' = Some ''Playwright-Demo/1.0''
   \<and> ci_get (headers (session (fst (set_auth_header example_client ''abc'' ''Bearer''))))
        ''User-Agent'' = Some ''Playwright-Demo/1.0''
   \<and> ci_get (headers (session (fst (set_header example_client ''accept'' ''text/html''))))
        ''Accept'' = Some ''text/html''
   \<and> base_url (fst (set_header example_client ''accept'' ''text/html'')) = ''https://api.example.test''"
  using set_header_frame [where self = example_client and key = "''accept''" and val = "''text/html''"
      and other = "''User-Agent''" and token = "''abc''" and header_type = "''Bearer''"]
  by (simp add: Let_def example_client_eq set_header_def set_auth_header_def ci_setitem_def
      ci_get_def str_lower_def lower_char_def)

section \<open>Closing the client\<close>

text \<open>
  C8. \<open>close()\<close> is idempotent on the client: closing a closed client leaves it as the
  first close left it. After it no adapter holds a pooled connection. \<open>__exit__\<close> is
  one \<open>close()\<close> and does not suppress the exception. A \<open>with\<close> block therefore ends
  with the client closed, the pool empty and the closing line logged, whether the block
  completes (its value is the result) or raises (the exception is raised again).
\<close>

theorem close_idempotent_and_on_every_exit:
  "fst (close (fst (close self))) = fst (close self)
   \<and> open_connections (fst (close self)) = []
   \<and> snd (close self) = [(INFO, ''Closing API client session'')]
   \<and> APIClient_exit self exc_val = (fst (close self), snd (close self), False)
   \<and> fst (with_statement self block) = fst (close (fst (block self)))
   \<and> open_connections (fst (with_statement self block)) = []
   \<and> fst (snd (with_statement self block))
       = fst (snd (block self)) @ [(INFO, ''Closing API client session'')]
   \<and> snd (snd (with_statement self block))
       = (case snd (snd (block self)) of Inl e \<Rightarrow> Inl e | Inr v \<Rightarrow> Inr (Some v))"
proof -
  have 1: "fst (close (fst (close self))) = fst (close self)"
    by (simp add: close_def session_close_idem)
  have 2: "APIClient_exit self exc_val = (fst (close self), snd (close self), False)"
    by (simp add: APIClient_exit_def case_prod_beta)
  have 3: "fst (snd (with_statement self block))
             = fst (snd (block self)) @ [(INFO, ''Closing API client session'')]"
    by (simp add: with_statement_def APIClient_enter_def APIClient_exit_def Let_def close_def
        case_prod_beta split: sum.splits)
  have 4: "snd (snd (with_statement self block))
             = (case snd (snd (block self)) of Inl e \<Rightarrow> Inl e | Inr v \<Rightarrow> Inr (Some v))"
    by (simp add: with_statement_def APIClient_enter_def APIClient_exit_def Let_def
        case_prod_beta split: sum.splits)
  have 5: "snd (close self) = [(INFO, ''Closing API client session'')]"
    by (simp add: close_def)
  show ?thesis
    using 1 2 3 4 5 by (simp add: open_connections_close fst_with_statement)
qed

text \<open>C8 on a client that holds pooled connections, closed twice, and closed by a
  \<open>with\<close> block that raises.\<close>

theorem close_idempotent_and_on_every_exit_witness:
  "open_connections busy_client
     = [''api.example.test:443'', ''cdn.example.test:443'',
        ''api.example.test:443'', ''cdn.example.test:443'']
   \<and> fst (close busy_client) = example_client
   \<and> fst (close (fst (close busy_client))) = example_client
   \<and> with_statement busy_client (\<lambda>c. (c, [], Inl (PyExc OtherException ''boom'') :: py_exc + nat))
       = (example_client, [(INFO, ''Closing API client session'')],
          Inl (PyExc OtherException ''boom''))"
  using close_idempotent_and_on_every_exit
    [of busy_client None "\<lambda>c. (c, [], Inl (PyExc OtherException ''boom'') :: py_exc + nat)"]
  by (simp add: busy_client_def example_client_eq open_connections_def close_def
      session_close_def adapter_close_def with_statement_def APIClient_enter_def
      APIClient_exit_def Let_def)

section \<open>File names\<close>

text \<open>
  C6. For a non-empty prefix, \<open>generate_unique_filename\<close> returns the prefix, an
  underscore, the timestamp of the clock reading and the extension. The timestamp has
  the shape \<open>YYYYMMDD_HHMMSS\<close>, and for a reading a clock can give it is the year in
  four digits, then month, day, an underscore, hour, minute and second in two digits
  each, filled with zeros. Two calls whose clock readings fall in the same second return
  the same string.
\<close>

theorem generate_unique_filename_with_prefix:
  assumes "prefix \<noteq> []"
  shows "generate_unique_filename now prefix extension
           = prefix @ ''_'' @ get_timestamp now @ extension
       \<and> timestamp_shaped (get_timestamp now)
       \<and> (valid_datetime now \<longrightarrow>
            get_timestamp now =
              zfill (str_nat (year now)) 4 @ zfill (str_nat (month now)) 2
              @ zfill (str_nat (day now)) 2 @ ''_'' @ zfill (str_nat (hour now)) 2
              @ zfill (str_nat (minute now)) 2 @ zfill (str_nat (second now)) 2)
       \<and> (same_second now now' \<longrightarrow>
            generate_unique_filename now' prefix extension
              = generate_unique_filename now prefix extension)"
proof -
  have "generate_unique_filename now prefix extension = prefix @ ''_'' @ get_timestamp now @ extension"
    using assms by (simp add: generate_unique_filename_def)
  moreover have "generate_unique_filename now' prefix extension
      = generate_unique_filename now prefix extension" if "same_second now now'"
    using that by (simp add: generate_unique_filename_def same_second_timestamp)
  ultimately show ?thesis
    using timestamp_shaped_get_timestamp [of now] get_timestamp_decimal [of now] by blast
qed

text \<open>C6 at \<open>generate_unique_filename("shot", ".png")\<close>, called twice within the second
  09:05:56 of 4 November 2026.\<close>

theorem generate_unique_filename_with_prefix_witness:
  "''shot'' \<noteq> []
   \<and> valid_datetime example_now
   \<and> same_second example_now (example_now\<lparr>microsecond := 999999\<rparr>)
   \<and> generate_unique_filename example_now ''shot'' ''.png'' = ''shot_20261104_090556.png''
   \<and> generate_unique_filename (example_now\<lparr>microsecond := 999999\<rparr>) ''shot'' ''.png''
       = ''shot_20261104_090556.png''"
  using generate_unique_filename_with_prefix
    [of "''shot''" example_now "''.png''" "example_now\<lparr>microsecond := 999999\<rparr>"]
  by (simp add: same_second_def valid_datetime_def example_now_def generate_unique_filename_def
      get_timestamp_fields zero_padded_2 zero_padded_4 digit_char_def)

text \<open>
  C9. With an empty prefix, \<open>generate_unique_filename\<close> returns the timestamp followed
  by the extension: no separator is put in front, the result begins with a digit of the
  year and not with an underscore.
\<close>

theorem generate_unique_filename_empty_prefix:
  "generate_unique_filename now [] extension = get_timestamp now @ extension
   \<and> is_digit (hd (generate_unique_filename now [] extension))
   \<and> \<not> startswith (generate_unique_filename now [] extension) ''_''"
proof -
  have e: "generate_unique_filename now [] extension = get_timestamp now @ extension"
    by (simp add: generate_unique_filename_def)
  obtain c cs where c: "get_timestamp now = c # cs" "is_digit c"
    unfolding get_timestamp_fields
    by (simp add: zero_padded_4 is_digit_digit_char)
  have "\<not> is_digit (CHR ''_'')" by (simp add: is_digit_def)
  with c have "c \<noteq> CHR ''_''" by auto
  with e c show ?thesis by (simp add: startswith_def)
qed

text \<open>C9 at \<open>generate_unique_filename("", ".png")\<close>.\<close>

theorem generate_unique_filename_empty_prefix_witness:
  "generate_unique_filename example_now [] ''.png'' = ''20261104_090556.png''"
  using generate_unique_filename_empty_prefix [of example_now "''.png''"]
  by (simp add: example_now_def get_timestamp_fields zero_padded_2 zero_padded_4 digit_char_def)

section \<open>The logger\<close>

text \<open>
  C7. In every state, \<open>get_logger\<close> returns a logger, never \<open>None\<close>; and after one call,
  any further calls, whatever names they pass, each return that same logger and change
  nothing. When no logger has been set up yet, the first call sets up the logger of the
  given name (\<open>playwright-demo\<close> when none is given), at level \<open>DEBUG\<close>, and attaches
  the console handler if that logger has no handler. Over a whole run of calls each
  logger ends with the handlers it had, or with those and the console handler after
  them: the handler is attached at most once.
\<close>

theorem get_logger_singleton:
  "snd (get_logger st name) \<noteq> None
   \<and> get_logger_calls (fst (get_logger st name)) names
       = (fst (get_logger st name), replicate (length names) (snd (get_logger st name)))
   \<and> (Logger_logger st = None \<longrightarrow>
        snd (get_logger st name) = Some (or_str name ''playwright-demo'')
        \<and> map_option logger_level
             (loggerDict (fst (get_logger st name)) (or_str name ''playwright-demo'')) = Some DEBUG
        \<and> handlers_of (fst (get_logger st name)) (or_str name ''playwright-demo'')
            = (if handlers_of st (or_str name ''playwright-demo'') = [] then [console_handler]
               else handlers_of st (or_str name ''playwright-demo'')))
   \<and> (handlers_of (fst (get_logger_calls st (name # names))) ref = handlers_of st ref
        \<or> handlers_of (fst (get_logger_calls st (name # names))) ref
            = handlers_of st ref @ [console_handler])"
proof -
  have 1: "snd (get_logger st name) \<noteq> None"
    by (simp add: get_logger_returns_attribute get_logger_not_None)
  have 2: "get_logger_calls (fst (get_logger st name)) names
       = (fst (get_logger st name), replicate (length names) (snd (get_logger st name)))"
    using get_logger_calls_initialised [OF get_logger_not_None, of st name names]
    by (simp add: get_logger_returns_attribute)
  have 3: "Logger_logger st = None \<longrightarrow>
        snd (get_logger st name) = Some (or_str name ''playwright-demo'')
        \<and> map_option logger_level
             (loggerDict (fst (get_logger st name)) (or_str name ''playwright-demo'')) = Some DEBUG
        \<and> handlers_of (fst (get_logger st name)) (or_str name ''playwright-demo'')
            = (if handlers_of st (or_str name ''playwright-demo'') = [] then [console_handler]
               else handlers_of st (or_str name ''playwright-demo''))"
    by (simp add: get_logger_first handlers_of_setup level_setup)
  have 4: "handlers_of (fst (get_logger_calls st (name # names))) ref = handlers_of st ref
        \<or> handlers_of (fst (get_logger_calls st (name # names))) ref
            = handlers_of st ref @ [console_handler]"
    using handlers_of_get_logger [of st name ref] by (simp only: get_logger_calls_Cons fst_conv)
  from 1 2 3 4 show ?thesis by blast
qed

text \<open>C7 in a process that has not logged yet: three calls, the later two with names
  of their own.\<close>

theorem get_logger_singleton_witness:
  "Logger_logger process_start = None
   \<and> snd (get_logger process_start None) = Some ''playwright-demo''
   \<and> snd (get_logger_calls process_start [None, Some ''api'', Some ''ui''])
       = [Some ''playwright-demo'', Some ''playwright-demo'', Some ''playwright-demo'']
   \<and> handlers_of (fst (get_logger_calls process_start [None, Some ''api'', Some ''ui'']))
        ''playwright-demo'' = [console_handler]
   \<and> handlers_of (fst (get_logger_calls process_start [None, Some ''api'', Some ''ui'']))
        ''api'' = []"
  using get_logger_singleton [of process_start None "[Some ''api'', Some ''ui'']" "''playwright-demo''"]
  by (simp add: process_start_def get_logger_def setup_logger_def getLogger_def
      update_logger_def handlers_of_def or_str_def Let_def)

end
